theory Spec2Isabelle
  imports Main "HOL-Library.Word"
begin

unbundle bit_operations_syntax

section \<open>The compiler interface used by the schema engine\<close>

text \<open>
  The engine of \<^verbatim>\<open>src/index.ts\<close> never builds compiler types: it receives them from
  the TypeScript compiler and questions them.  A compiler \<^verbatim>\<open>Type\<close> is therefore a handle,
  and everything the code asks of the compiler is a field of the record \<open>TypeChecker\<close>.
  The methods the code calls on a type object (\<^verbatim>\<open>type.getProperty(key)\<close>,
  \<^verbatim>\<open>type.getNumberIndexType()\<close>, \<^verbatim>\<open>type.isUnion()\<close>, \<^verbatim>\<open>type.types\<close>) are answered by the
  checker that created the type, which is the checker of the evaluation context; they are
  fields of the same record and take the type as their first argument.
\<close>

type_synonym Type = nat

type_synonym CompilerOptions = nat

text \<open>A compiler symbol: the code reads its name and its flags (a 32-bit mask).\<close>

record Symbol =
  getName :: string
  flags :: "32 word"

record SourceFile =
  fileName :: string

record TypeChecker =
  checkerId :: nat
  isTypeAssignableTo :: "Type \<Rightarrow> Type \<Rightarrow> bool"
  getNumberType :: Type
  getStringType :: Type
  getBooleanType :: Type
  getVoidType :: Type
  getUndefinedType :: Type
  getNullType :: Type
  getProperty :: "Type \<Rightarrow> string \<Rightarrow> Symbol option"
  getTypeOfSymbol :: "Symbol \<Rightarrow> Type"
  getNumberIndexType :: "Type \<Rightarrow> Type option"
  isUnion :: "Type \<Rightarrow> bool"
  types :: "Type \<Rightarrow> Type list"
  getSymbolAtLocation :: "SourceFile \<Rightarrow> Symbol option"
  getAmbientModules :: "Symbol list"
  getExportsOfModule :: "Symbol \<Rightarrow> Symbol list"
  getDeclaredTypeOfSymbol :: "Symbol \<Rightarrow> Type"

text \<open>
  \<open>checkerId\<close> stands for the identity of the checker object: the module cache is a
  \<^verbatim>\<open>WeakMap\<close> keyed by that object.
\<close>

record Program =
  getCompilerOptions :: CompilerOptions
  getCurrentDirectory :: string
  getSourceFile :: "string \<Rightarrow> SourceFile option"

text \<open>
  \<^verbatim>\<open>ts.resolveModuleName(moduleName, containingFile, compilerOptions, ts.sys)\<close>: the model
  keeps what the code reads of the answer, the resolved file name when
  \<^verbatim>\<open>resolved.resolvedModule\<close> is defined.  The function belongs to the imported module
  \<^verbatim>\<open>ts\<close>, so it is a parameter of everything that resolves modules.
\<close>

type_synonym ResolveModuleName = "string \<Rightarrow> string \<Rightarrow> CompilerOptions \<Rightarrow> string option"

definition TS_SYMBOL_FLAGS_OPTIONAL :: "32 word" where
  "TS_SYMBOL_FLAGS_OPTIONAL = 16777216"

section \<open>Schema contexts, effects and schema nodes\<close>

record SchemaContext =
  checker :: TypeChecker
  program :: "Program option"
  sourceFile :: "SourceFile option"

datatype error = Error string

text \<open>
  \<^verbatim>\<open>moduleTypeCache\<close>: per checker, a map from cache keys to a resolved type or
  \<^verbatim>\<open>null\<close>.  The key of the source is \<^verbatim>\<open>JSON.stringify([moduleName, exportName, f])\<close>
  with \<open>f\<close> a file name or \<^verbatim>\<open>null\<close>; that encoding is injective, so the model keeps
  the triple.
\<close>

type_synonym CacheKey = "string \<times> string \<times> string option"

type_synonym ModuleTypeCache = "nat \<rightharpoonup> (CacheKey \<rightharpoonup> Type option)"

text \<open>
  A predicate may throw and may write the module cache: its result is an error or a
  boolean, together with the cache it leaves behind.
\<close>

type_synonym 'a eff = "ModuleTypeCache \<Rightarrow> (error + 'a) \<times> ModuleTypeCache"

type_synonym AcceptsFn = "Type \<Rightarrow> SchemaContext \<Rightarrow> bool eff"

definition return_eff :: "'a \<Rightarrow> 'a eff" where
  "return_eff b = (\<lambda>c. (Inr b, c))"

text \<open>
  \<^verbatim>\<open>Array.prototype.every\<close> and \<^verbatim>\<open>Array.prototype.some\<close> with a callback that has
  effects: the elements are visited in order, the visit stops at the first \<^verbatim>\<open>false\<close>
  (respectively \<^verbatim>\<open>true\<close>), and an exception of the callback ends the visit.
\<close>

fun every :: "('a \<Rightarrow> bool eff) \<Rightarrow> 'a list \<Rightarrow> bool eff" where
  "every f [] c = (Inr True, c)"
| "every f (x # xs) c =
     (case f x c of
        (Inl e, c') \<Rightarrow> (Inl e, c')
      | (Inr b, c') \<Rightarrow> if b then every f xs c' else (Inr False, c'))"

fun some :: "('a \<Rightarrow> bool eff) \<Rightarrow> 'a list \<Rightarrow> bool eff" where
  "some f [] c = (Inr False, c)"
| "some f (x # xs) c =
     (case f x c of
        (Inl e, c') \<Rightarrow> (Inl e, c')
      | (Inr b, c') \<Rightarrow> if b then (Inr True, c') else some f xs c')"

record TypeSchema =
  accepts :: AcceptsFn
  isOptional :: bool

text \<open>\<^verbatim>\<open>new TypeSchema(accepts, isOptional = false)\<close> and the helper \<^verbatim>\<open>schema\<close>.\<close>

definition new_TypeSchema :: "AcceptsFn \<Rightarrow> bool \<Rightarrow> TypeSchema" where
  "new_TypeSchema acc opt = \<lparr>accepts = acc, isOptional = opt\<rparr>"

definition schema :: "AcceptsFn \<Rightarrow> TypeSchema" where
  "schema check = new_TypeSchema check False"

definition isAssignableTo :: "SchemaContext \<Rightarrow> Type \<Rightarrow> TypeSchema \<Rightarrow> bool eff" where
  "isAssignableTo ctx type s = accepts s type ctx"

section \<open>The builder namespace \<open>t\<close>\<close>

definition t_number :: TypeSchema where
  "t_number = schema (\<lambda>type ctx.
     return_eff (isTypeAssignableTo (checker ctx) type (getNumberType (checker ctx))))"

definition t_string :: TypeSchema where
  "t_string = schema (\<lambda>type ctx.
     return_eff (isTypeAssignableTo (checker ctx) type (getStringType (checker ctx))))"

definition t_boolean :: TypeSchema where
  "t_boolean = schema (\<lambda>type ctx.
     return_eff (isTypeAssignableTo (checker ctx) type (getBooleanType (checker ctx))))"

definition t_void :: TypeSchema where
  "t_void = schema (\<lambda>type ctx.
     return_eff (isTypeAssignableTo (checker ctx) type (getVoidType (checker ctx))))"

definition t_undefined :: TypeSchema where
  "t_undefined = schema (\<lambda>type ctx.
     return_eff (isTypeAssignableTo (checker ctx) type (getUndefinedType (checker ctx))))"

definition t_null :: TypeSchema where
  "t_null = schema (\<lambda>type ctx.
     return_eff (isTypeAssignableTo (checker ctx) type (getNullType (checker ctx))))"

definition t_any :: TypeSchema where
  "t_any = schema (\<lambda>type ctx. return_eff True)"

definition t_unknown :: TypeSchema where
  "t_unknown = schema (\<lambda>type ctx. return_eff True)"

text \<open>
  \<^verbatim>\<open>t.object(shape)\<close>: the shape is the list \<^verbatim>\<open>Object.entries(shape)\<close>, in the order
  in which JavaScript enumerates it.
\<close>

definition t_object :: "(string \<times> TypeSchema) list \<Rightarrow> TypeSchema" where
  "t_object shape = schema (\<lambda>type ctx.
     every (\<lambda>(key, propSchema).
       case getProperty (checker ctx) type key of
         None \<Rightarrow> return_eff (isOptional propSchema)
       | Some propSymbol \<Rightarrow>
           if \<not> isOptional propSchema \<and> (flags propSymbol AND TS_SYMBOL_FLAGS_OPTIONAL) \<noteq> 0
           then return_eff False
           else accepts propSchema (getTypeOfSymbol (checker ctx) propSymbol) ctx)
       shape)"

definition t_array :: "TypeSchema \<Rightarrow> TypeSchema" where
  "t_array element = schema (\<lambda>type ctx.
     case getNumberIndexType (checker ctx) type of
       None \<Rightarrow> return_eff False
     | Some indexType \<Rightarrow> accepts element indexType ctx)"

definition t_union :: "TypeSchema list \<Rightarrow> TypeSchema" where
  "t_union members = schema (\<lambda>type ctx.
     if isUnion (checker ctx) type
     then every (\<lambda>member. some (\<lambda>m. accepts m member ctx) members) (types (checker ctx) type)
     else some (\<lambda>m. accepts m type ctx) members)"

definition t_intersection :: "TypeSchema list \<Rightarrow> TypeSchema" where
  "t_intersection members = schema (\<lambda>type ctx. every (\<lambda>m. accepts m type ctx) members)"

definition t_custom :: "AcceptsFn \<Rightarrow> TypeSchema" where
  "t_custom predicate = schema predicate"

subsection \<open>Modifiers\<close>

definition optional :: "TypeSchema \<Rightarrow> TypeSchema" where
  "optional this = new_TypeSchema (accepts (t_union [this, t_undefined])) True"

definition nullable :: "TypeSchema \<Rightarrow> TypeSchema" where
  "nullable this = t_union [this, t_null]"

definition nullish :: "TypeSchema \<Rightarrow> TypeSchema" where
  "nullish this = optional (nullable this)"

subsection \<open>Module references\<close>

definition startsWith :: "string \<Rightarrow> string \<Rightarrow> bool" where
  "startsWith s p = (take (length p) s = p)"

definition quote :: string where
  "quote = [CHR 0x22]"

text \<open>The first half of \<^verbatim>\<open>resolveModuleType\<close>: the value of \<^verbatim>\<open>moduleSymbol\<close> once the
  standard resolution and the ambient fallback have run.\<close>

definition resolveModuleSymbol ::
  "ResolveModuleName \<Rightarrow> TypeChecker \<Rightarrow> Program \<Rightarrow> string \<Rightarrow> SourceFile option \<Rightarrow> Symbol option" where
  "resolveModuleSymbol resolveModuleName chk prog moduleName sf =
     (let compilerOptions = getCompilerOptions prog;
          containingFile = (case sf of
                              Some f \<Rightarrow> fileName f
                            | None \<Rightarrow> getCurrentDirectory prog @ ''/__typezod__.ts'');
          moduleSymbol =
            (case resolveModuleName moduleName containingFile compilerOptions of
               None \<Rightarrow> None
             | Some resolvedFileName \<Rightarrow>
                 (case getSourceFile prog resolvedFileName of
                    None \<Rightarrow> None
                  | Some resolvedSf \<Rightarrow> getSymbolAtLocation chk resolvedSf))
      in case moduleSymbol of
           Some s \<Rightarrow> Some s
         | None \<Rightarrow>
             (let quotedName = quote @ moduleName @ quote
              in find (\<lambda>s. getName s = quotedName) (getAmbientModules chk)))"

definition resolveModuleType ::
  "ResolveModuleName \<Rightarrow> TypeChecker \<Rightarrow> Program \<Rightarrow> string \<Rightarrow> string \<Rightarrow> SourceFile option
     \<Rightarrow> Type option" where
  "resolveModuleType resolveModuleName chk prog moduleName exportName sf =
     (case resolveModuleSymbol resolveModuleName chk prog moduleName sf of
        None \<Rightarrow> None
      | Some moduleSymbol \<Rightarrow>
          (case find (\<lambda>s. getName s = exportName) (getExportsOfModule chk moduleSymbol) of
             None \<Rightarrow> None
           | Some exportSymbol \<Rightarrow> Some (getDeclaredTypeOfSymbol chk exportSymbol)))"

definition missingProgramError :: error where
  "missingProgramError = Error ''t.fromModule() requires `program` in the SchemaContext.''"

definition missingSourceFileError :: error where
  "missingSourceFileError = Error
     ''t.fromModule() requires `sourceFile` in the SchemaContext for relative module specifiers.''"

definition unresolvedExportError :: "string \<Rightarrow> string \<Rightarrow> error" where
  "unresolvedExportError exportName moduleName = Error
     (''t.fromModule(): could not resolve export '' @ quote @ exportName @ quote
        @ '' from module '' @ quote @ moduleName @ quote @ ''.'')"

definition isRelative :: "string \<Rightarrow> bool" where
  "isRelative moduleName = (startsWith moduleName ''./'' \<or> startsWith moduleName ''../'')"

definition cacheKey :: "string \<Rightarrow> string \<Rightarrow> SourceFile option \<Rightarrow> CacheKey" where
  "cacheKey moduleName exportName sf =
     (moduleName, exportName, if isRelative moduleName then map_option fileName sf else None)"

text \<open>
  \<^verbatim>\<open>t.fromModule(moduleName, exportName)\<close>.  The inner \<^verbatim>\<open>Map\<close> of a checker is an object
  shared with the \<^verbatim>\<open>WeakMap\<close>: \<^verbatim>\<open>cache.set\<close> is seen through \<^verbatim>\<open>moduleTypeCache\<close>, so the
  model writes the updated inner map back under the checker.  \<^verbatim>\<open>cache.has(cacheKey)\<close> is
  true also for a key that maps to \<^verbatim>\<open>null\<close>; \<^verbatim>\<open>targetType == null\<close> holds for \<^verbatim>\<open>null\<close> and
  for \<^verbatim>\<open>undefined\<close>.
\<close>

definition t_fromModule :: "ResolveModuleName \<Rightarrow> string \<Rightarrow> string \<Rightarrow> TypeSchema" where
  "t_fromModule resolveModuleName moduleName exportName = schema (\<lambda>type ctx moduleTypeCache.
     case program ctx of
       None \<Rightarrow> (Inl missingProgramError, moduleTypeCache)
     | Some prog \<Rightarrow>
         if isRelative moduleName \<and> sourceFile ctx = None
         then (Inl missingSourceFileError, moduleTypeCache)
         else
           (let chk = checker ctx;
                cache = (case moduleTypeCache (checkerId chk) of
                           None \<Rightarrow> Map.empty
                         | Some c \<Rightarrow> c);
                k = cacheKey moduleName exportName (sourceFile ctx);
                cache' = (if cache k \<noteq> None then cache
                          else cache(k \<mapsto> resolveModuleType resolveModuleName chk prog
                                               moduleName exportName (sourceFile ctx)));
                moduleTypeCache' = moduleTypeCache(checkerId chk \<mapsto> cache')
            in case cache' k of
                 Some (Some targetType) \<Rightarrow>
                   (Inr (isTypeAssignableTo chk type targetType), moduleTypeCache')
               | _ \<Rightarrow> (Inl (unresolvedExportError exportName moduleName), moduleTypeCache')))"

text \<open>Reading the module cache: the entry stored for a checker and a key, if any.\<close>

definition cacheLookup :: "ModuleTypeCache \<Rightarrow> TypeChecker \<Rightarrow> CacheKey \<Rightarrow> Type option option" where
  "cacheLookup moduleTypeCache chk k =
     (case moduleTypeCache (checkerId chk) of None \<Rightarrow> None | Some cache \<Rightarrow> cache k)"

section \<open>Schema nodes as objects in a store\<close>

text \<open>
  The same class read with object identity made explicit: a store is the list of the
  nodes allocated so far and a reference is an index into it.  The constructor is the
  only code that writes the two \<^verbatim>\<open>readonly\<close> fields, and it writes them on the object
  it creates, so \<^verbatim>\<open>new TypeSchema(...)\<close> appends a node.  A closure that captures
  references (\<^verbatim>\<open>members\<close> in \<^verbatim>\<open>t.union\<close>) reads the nodes they point to; no node is
  ever overwritten, so the node read when the closure is built is the node it would read
  when it runs.  JavaScript references never dangle: every reference handed to these
  functions is below the length of the store.
\<close>

type_synonym Store = "TypeSchema list"

definition alloc :: "TypeSchema \<Rightarrow> Store \<Rightarrow> nat \<times> Store" where
  "alloc node h = (length h, h @ [node])"

definition ref_union :: "nat list \<Rightarrow> Store \<Rightarrow> nat \<times> Store" where
  "ref_union members h = alloc (t_union (map (\<lambda>r. h ! r) members)) h"

definition ref_optional :: "nat \<Rightarrow> Store \<Rightarrow> nat \<times> Store" where
  "ref_optional this h =
     (let (u, h1) = alloc t_undefined h;
          (un, h2) = ref_union [this, u] h1
      in alloc (new_TypeSchema (accepts (h2 ! un)) True) h2)"

definition ref_nullable :: "nat \<Rightarrow> Store \<Rightarrow> nat \<times> Store" where
  "ref_nullable this h =
     (let (n, h1) = alloc t_null h
      in ref_union [this, n] h1)"

definition ref_nullish :: "nat \<Rightarrow> Store \<Rightarrow> nat \<times> Store" where
  "ref_nullish this h =
     (let (n, h1) = ref_nullable this h
      in ref_optional n h1)"

section \<open>A small compiler world for concrete evaluations\<close>

text \<open>
  The types of the repository's tests, as handles: 0 \<^verbatim>\<open>number\<close>, 1 \<^verbatim>\<open>string\<close>,
  2 \<^verbatim>\<open>boolean\<close>, 3 \<^verbatim>\<open>void\<close>, 4 \<^verbatim>\<open>undefined\<close>, 5 \<^verbatim>\<open>null\<close>,
  10 \<^verbatim>\<open>{x: number; y?: number}\<close>, 11 \<^verbatim>\<open>{x: number; y: number}\<close>, 12 \<^verbatim>\<open>{x: number}\<close>,
  13 \<^verbatim>\<open>string | number\<close>, 14 \<^verbatim>\<open>number | null\<close>, 15 \<^verbatim>\<open>number | null | undefined\<close>,
  16 \<^verbatim>\<open>number[]\<close>, 17 \<^verbatim>\<open>number | undefined\<close>, 18 \<^verbatim>\<open>{w: Gadget; y?: number}\<close>,
  19 \<^verbatim>\<open>{x: number; y: number; label: string}\<close>, 30 \<^verbatim>\<open>Gadget\<close>, 31 \<^verbatim>\<open>Config\<close>,
  32 \<^verbatim>\<open>Foo\<close>, 33 \<^verbatim>\<open>Baz\<close>.  The package \<^verbatim>\<open>fake-lib\<close> resolves to a file and exports
  \<^verbatim>\<open>Gadget\<close> and \<^verbatim>\<open>Config\<close>; \<^verbatim>\<open>my-lib\<close> is an ambient module exporting \<^verbatim>\<open>Foo\<close> and
  \<^verbatim>\<open>Baz\<close>.
\<close>

definition sym :: "string \<Rightarrow> 32 word \<Rightarrow> Symbol" where
  "sym n f = \<lparr>getName = n, flags = f\<rparr>"

definition demoProperty :: "Type \<Rightarrow> string \<Rightarrow> Symbol option" where
  "demoProperty ty k =
     (if ty \<in> {10, 11, 12, 19} \<and> k = ''x'' then Some (sym ''x'' 4)
      else if ty \<in> {11, 19} \<and> k = ''y'' then Some (sym ''y'' 4)
      else if ty \<in> {10, 18} \<and> k = ''y'' then Some (sym ''y'' 16777220)
      else if ty = 19 \<and> k = ''label'' then Some (sym ''label'' 4)
      else if ty = 18 \<and> k = ''w'' then Some (sym ''w'' 4)
      else None)"

definition demoTypeOfSymbol :: "Symbol \<Rightarrow> Type" where
  "demoTypeOfSymbol s =
     (if getName s = ''label'' then 1
      else if getName s = ''w'' then 30
      else if flags s AND TS_SYMBOL_FLAGS_OPTIONAL \<noteq> 0 then 17
      else 0)"

definition demoTypes :: "Type \<Rightarrow> Type list" where
  "demoTypes ty =
     (if ty = 13 then [1, 0]
      else if ty = 14 then [0, 5]
      else if ty = 15 then [0, 5, 4]
      else if ty = 17 then [4, 0]
      else [])"

definition fakeLibFile :: string where
  "fakeLibFile = ''/proj/node_modules/fake-lib/index.d.ts''"

definition demoExports :: "Symbol \<Rightarrow> Symbol list" where
  "demoExports m =
     (if getName m = quote @ ''/proj/node_modules/fake-lib/index'' @ quote
      then [sym ''Gadget'' 32, sym ''Config'' 64]
      else if getName m = quote @ ''my-lib'' @ quote
      then [sym ''Foo'' 32, sym ''Baz'' 64]
      else [])"

definition demoDeclaredType :: "Symbol \<Rightarrow> Type" where
  "demoDeclaredType s =
     (if getName s = ''Gadget'' then 30
      else if getName s = ''Config'' then 31
      else if getName s = ''Foo'' then 32
      else 33)"

definition demoChecker :: TypeChecker where
  "demoChecker =
     \<lparr>checkerId = 1,
      isTypeAssignableTo = (\<lambda>a b. a = b \<or> (a = 4 \<and> b = 3)),
      getNumberType = 0, getStringType = 1, getBooleanType = 2,
      getVoidType = 3, getUndefinedType = 4, getNullType = 5,
      getProperty = demoProperty,
      getTypeOfSymbol = demoTypeOfSymbol,
      getNumberIndexType = (\<lambda>ty. if ty = 16 then Some 0 else None),
      isUnion = (\<lambda>ty. ty \<in> {13, 14, 15, 17}),
      types = demoTypes,
      getSymbolAtLocation = (\<lambda>f. if fileName f = fakeLibFile
                                   then Some (sym (quote @ ''/proj/node_modules/fake-lib/index'' @ quote) 512)
                                   else None),
      getAmbientModules = [sym (quote @ ''my-lib'' @ quote) 512],
      getExportsOfModule = demoExports,
      getDeclaredTypeOfSymbol = demoDeclaredType\<rparr>"

definition demoProgram :: Program where
  "demoProgram =
     \<lparr>getCompilerOptions = 0,
      getCurrentDirectory = ''/proj'',
      getSourceFile = (\<lambda>n. if n = fakeLibFile then Some \<lparr>fileName = n\<rparr> else None)\<rparr>"

definition demoResolve :: ResolveModuleName where
  "demoResolve moduleName containingFile opts =
     (if moduleName = ''fake-lib'' then Some fakeLibFile else None)"

definition demoCtx :: SchemaContext where
  "demoCtx = \<lparr>checker = demoChecker, program = Some demoProgram,
              sourceFile = Some \<lparr>fileName = ''/proj/test.ts''\<rparr>\<rparr>"

text \<open>The context of the tests that pass only a checker.\<close>

definition checkerOnlyCtx :: SchemaContext where
  "checkerOnlyCtx = \<lparr>checker = demoChecker, program = None, sourceFile = None\<rparr>"

text \<open>A second world, in which no package is installed and no ambient module is declared.\<close>

definition bareChecker :: TypeChecker where
  "bareChecker = demoChecker\<lparr>checkerId := 2, getSymbolAtLocation := (\<lambda>f. None),
                                getAmbientModules := []\<rparr>"

definition bareResolve :: ResolveModuleName where
  "bareResolve moduleName containingFile opts = None"

definition bareCtx :: SchemaContext where
  "bareCtx = \<lparr>checker = bareChecker, program = Some demoProgram,
              sourceFile = Some \<lparr>fileName = ''/proj/test.ts''\<rparr>\<rparr>"

text \<open>
  A resolver that depends on the containing file: \<^verbatim>\<open>./lib\<close> exists beside
  \<^verbatim>\<open>/proj/test.ts\<close> only, and the package \<^verbatim>\<open>fake-lib\<close> is installed for the files of
  \<^verbatim>\<open>/proj/pkg\<close> only.  \<open>otherFileCtx\<close> is the context of the first world for another
  source file.
\<close>

definition siteResolve :: ResolveModuleName where
  "siteResolve moduleName containingFile opts =
     (if moduleName = ''./lib'' \<and> containingFile = ''/proj/test.ts'' then Some fakeLibFile
      else if moduleName = ''fake-lib'' \<and> containingFile = ''/proj/pkg/main.ts'' then Some fakeLibFile
      else None)"

definition otherFileCtx :: SchemaContext where
  "otherFileCtx = demoCtx\<lparr>sourceFile := Some \<lparr>fileName = ''/other/main.ts''\<rparr>\<rparr>"

text \<open>
  \<^verbatim>\<open>t.custom\<close> takes any predicate.  This one evaluates a module reference itself, as seen
  from a file of \<^verbatim>\<open>/proj/pkg\<close>, and answers the opposite:
  \<^verbatim>\<open>t.custom((type, ctx) => !isAssignableTo({...ctx, sourceFile: pkgMain}, type, t.fromModule("fake-lib", "Gadget")))\<close>.
  Like every evaluation of a module reference it reads and writes the module cache.
\<close>

definition probe :: TypeSchema where
  "probe = t_custom (\<lambda>type ctx c.
     case isAssignableTo (ctx\<lparr>sourceFile := Some \<lparr>fileName = ''/proj/pkg/main.ts''\<rparr>\<rparr>) type
            (t_fromModule siteResolve ''fake-lib'' ''Gadget'') c of
       (Inl e, d) \<Rightarrow> (Inl e, d)
     | (Inr b, d) \<Rightarrow> (Inr (\<not> b), d))"

section \<open>Basic facts\<close>

lemma accepts_schema: "accepts (schema f) = f"
  by (simp add: schema_def new_TypeSchema_def)

lemma every_cong_set:
  "(\<And>x c. x \<in> set xs \<Longrightarrow> f x c = g x c) \<Longrightarrow> every f xs c = every g xs c"
  by (induction xs arbitrary: c) (auto split: prod.splits sum.splits)

lemmas demo_defs =
  demoCtx_def checkerOnlyCtx_def bareCtx_def demoChecker_def bareChecker_def demoProgram_def
  demoResolve_def bareResolve_def demoProperty_def demoTypeOfSymbol_def demoTypes_def
  demoExports_def demoDeclaredType_def fakeLibFile_def sym_def quote_def
  TS_SYMBOL_FLAGS_OPTIONAL_def

lemmas eval_defs =
  isAssignableTo_def t_object_def t_union_def t_intersection_def t_array_def t_custom_def
  t_number_def t_string_def t_boolean_def t_void_def t_undefined_def t_null_def t_any_def
  t_unknown_def optional_def nullable_def nullish_def new_TypeSchema_def schema_def
  return_eff_def

lemmas module_defs =
  t_fromModule_def isRelative_def startsWith_def cacheKey_def resolveModuleType_def
  resolveModuleSymbol_def unresolvedExportError_def missingProgramError_def
  missingSourceFileError_def

lemmas site_defs = siteResolve_def otherFileCtx_def probe_def

subsection \<open>The two array visits\<close>

text \<open>
  The lemmas below describe \<open>every\<close> and \<open>some\<close> when the outcome of the callback on an
  element does not depend on the cache, as long as the cache satisfies an invariant \<open>I\<close>
  that the callback preserves.
\<close>

lemma every_rejecting_element:
  assumes "\<And>c. f x c = (Inr False, c)"
  shows "fst (every f (pre @ x # post) c) = Inr False \<or>
         (\<exists>e y c'. y \<in> set pre \<and> fst (f y c') = Inl e \<and> fst (every f (pre @ x # post) c) = Inl e)"
proof (induction pre arbitrary: c)
  case Nil
  show ?case by (simp add: assms)
next
  case (Cons a pre)
  obtain r c1 where fa: "f a c = (r, c1)" by (cases "f a c")
  show ?case
  proof (cases r)
    case (Inl e)
    with fa have "fst (f a c) = Inl e" "fst (every f ((a # pre) @ x # post) c) = Inl e"
      by simp_all
    then show ?thesis by (metis list.set_intros(1))
  next
    case (Inr b)
    show ?thesis
    proof (cases b)
      case False
      with Inr fa show ?thesis by simp
    next
      case True
      with Inr fa have eq: "every f ((a # pre) @ x # post) c = every f (pre @ x # post) c1"
        by simp
      from Cons.IH [of c1] show ?thesis
        unfolding eq by (metis list.set_intros(2))
    qed
  qed
qed






subsection \<open>Evaluating a module reference\<close>

lemma fromModule_hit:
  assumes "program ctx = Some prog"
      and "isRelative m \<longrightarrow> sourceFile ctx \<noteq> None"
      and "cacheLookup c (checker ctx) (cacheKey m e (sourceFile ctx)) = Some v"
  shows "isAssignableTo ctx ty (t_fromModule r m e) c =
           (case v of
              Some targetType \<Rightarrow> Inr (isTypeAssignableTo (checker ctx) ty targetType)
            | None \<Rightarrow> Inl (unresolvedExportError e m), c)"
proof -
  from assms(3) obtain cache where c: "c (checkerId (checker ctx)) = Some cache"
    and k: "cache (cacheKey m e (sourceFile ctx)) = Some v"
    by (auto simp: cacheLookup_def split: option.splits)
  from c have same: "c(checkerId (checker ctx) \<mapsto> cache) = c" by (rule map_upd_triv)
  from k have dom: "cache (cacheKey m e (sourceFile ctx)) \<noteq> None" by simp
  show ?thesis
    using assms(1,2) c k dom same
    by (cases v) (auto simp: isAssignableTo_def t_fromModule_def accepts_schema Let_def)
qed

lemma fromModule_miss:
  assumes "program ctx = Some prog"
      and "isRelative m \<longrightarrow> sourceFile ctx \<noteq> None"
      and "cacheLookup c (checker ctx) (cacheKey m e (sourceFile ctx)) = None"
  shows "isAssignableTo ctx ty (t_fromModule r m e) c =
           (case resolveModuleType r (checker ctx) prog m e (sourceFile ctx) of
              Some targetType \<Rightarrow> Inr (isTypeAssignableTo (checker ctx) ty targetType)
            | None \<Rightarrow> Inl (unresolvedExportError e m),
            c(checkerId (checker ctx) \<mapsto>
                (case c (checkerId (checker ctx)) of None \<Rightarrow> Map.empty | Some cache \<Rightarrow> cache)
                  (cacheKey m e (sourceFile ctx) \<mapsto>
                     resolveModuleType r (checker ctx) prog m e (sourceFile ctx))))"
proof -
  let ?cache = "case c (checkerId (checker ctx)) of None \<Rightarrow> Map.empty | Some cache \<Rightarrow> cache"
  from assms(3) have "?cache (cacheKey m e (sourceFile ctx)) = None"
    by (auto simp: cacheLookup_def split: option.splits)
  then have dom: "\<not> ?cache (cacheKey m e (sourceFile ctx)) \<noteq> None" by simp
  show ?thesis
    using assms(1,2) dom
    by (cases "resolveModuleType r (checker ctx) prog m e (sourceFile ctx)")
       (auto simp: isAssignableTo_def t_fromModule_def accepts_schema Let_def)
qed

lemma cacheLookup_upd:
  "cacheLookup (c(checkerId chk \<mapsto> cache)) chk' k =
     (if checkerId chk' = checkerId chk then cache k else cacheLookup c chk' k)"
  by (simp add: cacheLookup_def)

lemma fromModule_keeps_entries:
  assumes "cacheLookup c chk' k' = Some v"
  shows "cacheLookup (snd (isAssignableTo ctx ty (t_fromModule r m e) c)) chk' k' = Some v"
proof (cases "program ctx")
  case None
  with assms show ?thesis by (simp add: isAssignableTo_def t_fromModule_def accepts_schema)
next
  case (Some prog)
  show ?thesis
  proof (cases "isRelative m \<and> sourceFile ctx = None")
    case True
    with Some assms show ?thesis by (simp add: isAssignableTo_def t_fromModule_def accepts_schema)
  next
    case False
    then have rel: "isRelative m \<longrightarrow> sourceFile ctx \<noteq> None" by simp
    show ?thesis
    proof (cases "cacheLookup c (checker ctx) (cacheKey m e (sourceFile ctx))")
      case (Some w)
      from fromModule_hit [OF \<open>program ctx = Some prog\<close> rel Some] assms show ?thesis by simp
    next
      case None
      have "cacheLookup (snd (isAssignableTo ctx ty (t_fromModule r m e) c)) chk' k' =
            cacheLookup c chk' k'"
      proof (cases "checkerId chk' = checkerId (checker ctx)")
        case False
        then show ?thesis
          unfolding fromModule_miss [OF \<open>program ctx = Some prog\<close> rel None]
          by (simp add: cacheLookup_upd)
      next
        case True
        with None assms have ne: "k' \<noteq> cacheKey m e (sourceFile ctx)"
          by (auto simp: cacheLookup_def)
        show ?thesis
          unfolding fromModule_miss [OF \<open>program ctx = Some prog\<close> rel None]
          using True ne by (auto simp: cacheLookup_def split: option.splits)
      qed
      with assms show ?thesis by simp
    qed
  qed
qed

lemma resolveModuleType_None_iff:
  "resolveModuleType r chk prog m e sf = None \<longleftrightarrow>
     (resolveModuleSymbol r chk prog m sf = None \<or>
      (\<exists>moduleSymbol. resolveModuleSymbol r chk prog m sf = Some moduleSymbol \<and>
          find (\<lambda>s. getName s = e) (getExportsOfModule chk moduleSymbol) = None))"
  by (auto simp: resolveModuleType_def split: option.splits)

lemma unresolved_distinct:
  "unresolvedExportError e m \<noteq> missingProgramError"
  "unresolvedExportError e m \<noteq> missingSourceFileError"
  by (simp_all add: unresolvedExportError_def missingProgramError_def missingSourceFileError_def quote_def)

lemma fromModule_errors:
  assumes "fst (isAssignableTo ctx ty (t_fromModule r m e) c) = Inl err"
  shows "err = missingProgramError \<or> err = missingSourceFileError \<or> err = unresolvedExportError e m"
proof (cases "program ctx")
  case None
  with assms show ?thesis by (simp add: isAssignableTo_def t_fromModule_def accepts_schema)
next
  case (Some prog)
  show ?thesis
  proof (cases "isRelative m \<and> sourceFile ctx = None")
    case True
    with Some assms show ?thesis by (simp add: isAssignableTo_def t_fromModule_def accepts_schema)
  next
    case False
    then have rel: "isRelative m \<longrightarrow> sourceFile ctx \<noteq> None" by simp
    show ?thesis
    proof (cases "cacheLookup c (checker ctx) (cacheKey m e (sourceFile ctx))")
      case None
      from assms show ?thesis
        unfolding fromModule_miss [OF Some rel None] by (simp split: option.splits)
    next
      case hit: (Some v)
      from assms show ?thesis
        unfolding fromModule_hit [OF Some rel hit] by (simp split: option.splits)
    qed
  qed
qed

lemma cacheKey_eq_iff:
  "cacheKey m' e' sf' = cacheKey m e sf \<longleftrightarrow>
     m' = m \<and> e' = e \<and> (isRelative m \<longrightarrow> map_option fileName sf' = map_option fileName sf)"
  by (auto simp: cacheKey_def)

lemma fromModule_frame:
  assumes "checkerId chk0 \<noteq> checkerId (checker ctx) \<or> k0 \<noteq> cacheKey m e (sourceFile ctx)"
  shows "cacheLookup (snd (isAssignableTo ctx ty (t_fromModule r m e) c)) chk0 k0 =
         cacheLookup c chk0 k0"
proof (cases "program ctx")
  case None
  then show ?thesis by (simp add: isAssignableTo_def t_fromModule_def accepts_schema)
next
  case (Some prog)
  show ?thesis
  proof (cases "isRelative m \<and> sourceFile ctx = None")
    case True
    with Some show ?thesis by (simp add: isAssignableTo_def t_fromModule_def accepts_schema)
  next
    case False
    then have rel: "isRelative m \<longrightarrow> sourceFile ctx \<noteq> None" by simp
    show ?thesis
    proof (cases "cacheLookup c (checker ctx) (cacheKey m e (sourceFile ctx))")
      case hit: (Some v)
      show ?thesis unfolding fromModule_hit [OF Some rel hit] by simp
    next
      case None
      show ?thesis
        unfolding fromModule_miss [OF Some rel None]
        using assms by (auto simp: cacheLookup_def split: option.splits)
    qed
  qed
qed

subsection \<open>Evaluating a nullish schema\<close>




section \<open>Object schemas\<close>

text \<open>
  Claim C1.  Let the shape of an object schema hold the entry \<open>(key, propSchema)\<close> with
  \<open>propSchema\<close> not marked optional, let the candidate have a property symbol for
  \<open>key\<close>, and let that symbol carry the declared-optional flag.  Then the evaluation never
  returns true, whatever the type of the property.  It returns false, unless the predicate
  of an entry enumerated before \<open>key\<close> throws: then the evaluation throws that error.  When
  \<open>key\<close> is the first entry the result is false and the cache is untouched.
\<close>

theorem object_required_vs_declared_optional:
  assumes "\<not> isOptional propSchema"
      and "getProperty (checker ctx) ty key = Some propSymbol"
      and "flags propSymbol AND TS_SYMBOL_FLAGS_OPTIONAL \<noteq> 0"
  shows "fst (isAssignableTo ctx ty (t_object (pre @ (key, propSchema) # post)) c) \<noteq> Inr True \<and>
         (fst (isAssignableTo ctx ty (t_object (pre @ (key, propSchema) # post)) c) = Inr False \<or>
          (\<exists>e k s ty' c'. (k, s) \<in> set pre \<and> fst (accepts s ty' ctx c') = Inl e \<and>
             fst (isAssignableTo ctx ty (t_object (pre @ (key, propSchema) # post)) c) = Inl e)) \<and>
         (pre = [] \<longrightarrow> isAssignableTo ctx ty (t_object ((key, propSchema) # post)) c = (Inr False, c))"
proof -
  let ?f = "\<lambda>(key, propSchema).
       case getProperty (checker ctx) ty key of
         None \<Rightarrow> return_eff (isOptional propSchema)
       | Some propSymbol \<Rightarrow>
           if \<not> isOptional propSchema \<and> (flags propSymbol AND TS_SYMBOL_FLAGS_OPTIONAL) \<noteq> 0
           then return_eff False
           else accepts propSchema (getTypeOfSymbol (checker ctx) propSymbol) ctx"
  let ?res = "isAssignableTo ctx ty (t_object (pre @ (key, propSchema) # post)) c"
  have res: "?res = every ?f (pre @ (key, propSchema) # post) c"
    by (simp add: isAssignableTo_def t_object_def accepts_schema)
  have stop: "?f (key, propSchema) c0 = (Inr False, c0)" for c0
    using assms by (simp add: return_eff_def)
  have raise: "\<exists>ty'. fst (accepts s ty' ctx c') = Inl e" if "fst (?f (k, s) c') = Inl e" for k s c' e
    using that by (auto simp: return_eff_def split: option.splits if_splits)
  have alt: "fst ?res = Inr False \<or>
         (\<exists>e k s ty' c'. (k, s) \<in> set pre \<and> fst (accepts s ty' ctx c') = Inl e \<and> fst ?res = Inl e)"
  proof (cases "fst ?res = Inr False")
    case True
    then show ?thesis by simp
  next
    case False
    with every_rejecting_element [of ?f "(key, propSchema)" pre post c, OF stop]
    obtain e y c' where y: "y \<in> set pre" "fst (?f y c') = Inl e" "fst ?res = Inl e"
      unfolding res by blast
    obtain k s where ks: "y = (k, s)" by (cases y)
    from raise [of k s c' e] y(2) ks obtain ty' where "fst (accepts s ty' ctx c') = Inl e"
      by blast
    with y ks show ?thesis by blast
  qed
  then have "fst ?res \<noteq> Inr True" by auto
  moreover have "pre = [] \<longrightarrow> isAssignableTo ctx ty (t_object ((key, propSchema) # post)) c = (Inr False, c)"
    using stop [of c] by (simp add: isAssignableTo_def t_object_def accepts_schema)
  ultimately show ?thesis using alt by blast
qed

text \<open>
  An instance in which the property type satisfies the property schema: the candidate
  \<^verbatim>\<open>{x: number; y?: number}\<close> against \<^verbatim>\<open>t.object({x: t.number(), y: t.any()})\<close>.
\<close>

theorem object_required_vs_declared_optional_witness:
  "\<not> isOptional t_any \<and>
   getProperty (checker demoCtx) 10 ''y'' = Some (sym ''y'' 16777220) \<and>
   flags (sym ''y'' 16777220) AND TS_SYMBOL_FLAGS_OPTIONAL \<noteq> 0 \<and>
   fst (accepts t_any (getTypeOfSymbol (checker demoCtx) (sym ''y'' 16777220)) demoCtx Map.empty)
     = Inr True \<and>
   fst (isAssignableTo demoCtx 10 (t_object [(''x'', t_number), (''y'', t_any)]) Map.empty)
     = Inr False"
proof -
  have a: "\<not> isOptional t_any" by (simp add: eval_defs)
  have b: "getProperty (checker demoCtx) 10 ''y'' = Some (sym ''y'' 16777220)"
    by (simp add: demo_defs)
  have c: "flags (sym ''y'' 16777220) AND TS_SYMBOL_FLAGS_OPTIONAL \<noteq> 0"
    by (simp add: demo_defs)
  have d: "fst (accepts t_any (getTypeOfSymbol (checker demoCtx) (sym ''y'' 16777220)) demoCtx
             Map.empty) = Inr True"
    by (simp add: eval_defs)
  have e: "\<forall>ty' c'. fst (accepts t_number ty' demoCtx c') \<noteq> Inl err" for err
    by (simp add: eval_defs)
  from object_required_vs_declared_optional [OF a b c, of "[(''x'', t_number)]" "[]" Map.empty] e
  have "fst (isAssignableTo demoCtx 10 (t_object [(''x'', t_number), (''y'', t_any)]) Map.empty)
     = Inr False"
    by auto
  with a b c d show ?thesis by simp
qed

text \<open>
  The evaluation does not always return false.  In
  \<^verbatim>\<open>t.object({w: t.fromModule("fake-lib", "Gadget"), y: t.number()})\<close> the entry \<open>w\<close> is
  visited first; in a context without \<^verbatim>\<open>program\<close> its predicate throws, and the candidate
  \<^verbatim>\<open>{w: Gadget; y?: number}\<close> gets an error instead of \<^verbatim>\<open>false\<close>.
\<close>

theorem object_required_vs_declared_optional_counterexample:
  "\<not> isOptional t_number \<and>
   getProperty (checker checkerOnlyCtx) 18 ''y'' = Some (sym ''y'' 16777220) \<and>
   flags (sym ''y'' 16777220) AND TS_SYMBOL_FLAGS_OPTIONAL \<noteq> 0 \<and>
   isAssignableTo checkerOnlyCtx 18
       (t_object [(''w'', t_fromModule demoResolve ''fake-lib'' ''Gadget''), (''y'', t_number)])
       Map.empty
     = (Inl missingProgramError, Map.empty)"
  by (simp add: eval_defs demo_defs t_fromModule_def)

text \<open>
  Claim C5.  Object-schema acceptance is monotonic under extra properties.  Let the
  candidate \<open>ty'\<close> be the candidate \<open>ty\<close> extended with a property \<open>k\<close> that the shape
  does not mention: on every other key the two types answer \<^verbatim>\<open>getProperty\<close> alike.  Then
  the object schema gives the same result on both, the same cache included; in particular
  an acceptance of \<open>ty\<close> is never turned into a rejection of \<open>ty'\<close>.
\<close>

theorem object_extra_property:
  assumes "k \<notin> fst ` set shape"
      and "\<forall>k'. k' \<noteq> k \<longrightarrow> getProperty (checker ctx) ty' k' = getProperty (checker ctx) ty k'"
  shows "isAssignableTo ctx ty' (t_object shape) c = isAssignableTo ctx ty (t_object shape) c \<and>
         (fst (isAssignableTo ctx ty (t_object shape) c) = Inr True \<longrightarrow>
          fst (isAssignableTo ctx ty' (t_object shape) c) = Inr True)"
proof -
  have same: "getProperty (checker ctx) ty' key = getProperty (checker ctx) ty key"
    if "(key, ps) \<in> set shape" for key ps
  proof -
    from that assms(1) have "key \<noteq> k" by force
    with assms(2) show ?thesis by simp
  qed
  have "isAssignableTo ctx ty' (t_object shape) c = isAssignableTo ctx ty (t_object shape) c"
    unfolding isAssignableTo_def t_object_def accepts_schema
    by (rule every_cong_set) (auto simp: same)
  then show ?thesis by simp
qed

theorem object_extra_property_witness:
  "''label'' \<notin> fst ` set [(''x'', t_number), (''y'', t_number)] \<and>
   getProperty (checker demoCtx) 11 ''label'' = None \<and>
   getProperty (checker demoCtx) 19 ''label'' \<noteq> None \<and>
   isAssignableTo demoCtx 11 (t_object [(''x'', t_number), (''y'', t_number)]) Map.empty
     = (Inr True, Map.empty) \<and>
   isAssignableTo demoCtx 19 (t_object [(''x'', t_number), (''y'', t_number)]) Map.empty
     = (Inr True, Map.empty)"
proof -
  have a: "''label'' \<notin> fst ` set [(''x'', t_number), (''y'', t_number)]" by simp
  have b: "\<forall>k'. k' \<noteq> ''label'' \<longrightarrow>
             getProperty (checker demoCtx) 19 k' = getProperty (checker demoCtx) 11 k'"
    by (simp add: demo_defs)
  have c: "isAssignableTo demoCtx 11 (t_object [(''x'', t_number), (''y'', t_number)]) Map.empty
     = (Inr True, Map.empty)"
    by (simp add: eval_defs demo_defs)
  from object_extra_property [OF a b, of Map.empty] c show ?thesis
    by (simp add: demo_defs)
qed

section \<open>Union schemas\<close>




section \<open>The modifiers\<close>




text \<open>
  Claim C8.  In the store reading of the class, each of \<^verbatim>\<open>.optional()\<close>, \<^verbatim>\<open>.nullable()\<close>
  and \<^verbatim>\<open>.nullish()\<close> leaves every node of the store as it was, the receiver in particular
  (its predicate and its flag), and returns a reference that did not exist before the
  call, to the node that the modifier describes.  The same receiver can therefore be
  modified twice: after \<^verbatim>\<open>.optional()\<close> and then \<^verbatim>\<open>.nullable()\<close> on one receiver, the two
  results are different nodes, each built from the unchanged receiver.
\<close>

theorem modifiers_only_allocate:
  assumes "this < length h"
  shows "take (length h) (snd (ref_optional this h)) = h \<and>
         take (length h) (snd (ref_nullable this h)) = h \<and>
         take (length h) (snd (ref_nullish this h)) = h \<and>
         length h \<le> fst (ref_optional this h) \<and>
         length h \<le> fst (ref_nullable this h) \<and>
         length h \<le> fst (ref_nullish this h) \<and>
         snd (ref_optional this h) ! fst (ref_optional this h) = optional (h ! this) \<and>
         snd (ref_nullable this h) ! fst (ref_nullable this h) = nullable (h ! this) \<and>
         snd (ref_nullish this h) ! fst (ref_nullish this h) = nullish (h ! this) \<and>
         snd (ref_optional this h) ! this = h ! this \<and>
         snd (ref_nullable this h) ! this = h ! this \<and>
         snd (ref_nullish this h) ! this = h ! this \<and>
         (let (r1, h1) = ref_optional this h; (r2, h2) = ref_nullable this h1
          in r1 \<noteq> r2 \<and> h2 ! this = h ! this \<and>
             h2 ! r1 = optional (h ! this) \<and> h2 ! r2 = nullable (h ! this))"
  using assms
  by (auto simp: ref_optional_def ref_nullable_def ref_nullish_def ref_union_def alloc_def
        optional_def nullable_def nullish_def nth_append Let_def)

theorem modifiers_only_allocate_witness:
  "(0::nat) < length [t_number] \<and>
   take 1 (snd (ref_optional 0 [t_number])) = [t_number] \<and>
   fst (ref_optional 0 [t_number]) = 3 \<and>
   snd (ref_optional 0 [t_number]) ! 3 = optional t_number \<and>
   snd (ref_optional 0 [t_number]) ! 0 = t_number \<and>
   isOptional (snd (ref_optional 0 [t_number]) ! 0) = False \<and>
   isOptional (snd (ref_optional 0 [t_number]) ! 3) = True"
  using modifiers_only_allocate [of 0 "[t_number]"]
  by (simp add: ref_optional_def ref_union_def alloc_def optional_def new_TypeSchema_def
        t_number_def schema_def)

text \<open>
  Claim C9.  The nodes returned by \<^verbatim>\<open>t.union\<close>, \<^verbatim>\<open>t.intersection\<close> and \<^verbatim>\<open>.nullable()\<close>
  have \<^verbatim>\<open>_isOptional = false\<close> whatever the flags of their arguments or receiver.  In
  particular \<^verbatim>\<open>s.optional().nullable()\<close> is not optional and \<^verbatim>\<open>s.nullable().optional()\<close>
  is: as the schema of a property that the candidate lacks, the first makes the object
  schema reject and the second makes it accept.
\<close>

theorem wrappers_drop_optional_flag:
  "isOptional (t_union members) = False \<and>
   isOptional (t_intersection members) = False \<and>
   isOptional (nullable s) = False \<and>
   isOptional (nullable (optional s)) = False \<and>
   isOptional (optional (nullable s)) = True \<and>
   (getProperty (checker ctx) ty k = None \<longrightarrow>
      isAssignableTo ctx ty (t_object [(k, nullable (optional s))]) c = (Inr False, c) \<and>
      isAssignableTo ctx ty (t_object [(k, optional (nullable s))]) c = (Inr True, c))"
  by (simp add: eval_defs)

theorem wrappers_drop_optional_flag_witness:
  "getProperty (checker demoCtx) 12 ''y'' = None \<and>
   isAssignableTo demoCtx 12 (t_object [(''y'', nullable (optional t_number))]) Map.empty
     = (Inr False, Map.empty) \<and>
   isAssignableTo demoCtx 12 (t_object [(''y'', optional (nullable t_number))]) Map.empty
     = (Inr True, Map.empty)"
  using wrappers_drop_optional_flag [of "[]" t_number demoCtx 12 "''y''" Map.empty]
  by (simp add: demo_defs)

section \<open>Empty composites\<close>

text \<open>
  Claim C10.  For every candidate type, context and cache, \<^verbatim>\<open>t.object({})\<close> and
  \<^verbatim>\<open>t.intersection()\<close> evaluate to true and \<^verbatim>\<open>t.union()\<close> evaluates to false.  A union
  type of the compiler has at least two constituents; the statement for \<^verbatim>\<open>t.union()\<close>
  asks that a candidate reported as a union has a constituent.
\<close>

theorem empty_composites:
  "isAssignableTo ctx ty (t_object []) c = (Inr True, c) \<and>
   isAssignableTo ctx ty (t_intersection []) c = (Inr True, c) \<and>
   ((isUnion (checker ctx) ty \<longrightarrow> types (checker ctx) ty \<noteq> []) \<longrightarrow>
      isAssignableTo ctx ty (t_union []) c = (Inr False, c))"
  by (cases "types (checker ctx) ty")
     (simp_all add: isAssignableTo_def t_object_def t_intersection_def t_union_def accepts_schema)

theorem empty_composites_witness:
  "isAssignableTo demoCtx 13 (t_object []) Map.empty = (Inr True, Map.empty) \<and>
   isAssignableTo demoCtx 13 (t_intersection []) Map.empty = (Inr True, Map.empty) \<and>
   isUnion (checker demoCtx) 13 \<and> types (checker demoCtx) 13 \<noteq> [] \<and>
   isAssignableTo demoCtx 13 (t_union []) Map.empty = (Inr False, Map.empty) \<and>
   \<not> isUnion (checker demoCtx) 0 \<and>
   isAssignableTo demoCtx 0 (t_union []) Map.empty = (Inr False, Map.empty)"
  using empty_composites [of demoCtx 13 Map.empty] empty_composites [of demoCtx 0 Map.empty]
  by (simp add: demo_defs)

section \<open>Module references\<close>

text \<open>
  Claim C7.  A module reference evaluated in a context without \<^verbatim>\<open>program\<close> raises the
  missing-program error.  With a program, a specifier that starts with \<^verbatim>\<open>./\<close> or
  \<^verbatim>\<open>../\<close> evaluated without \<^verbatim>\<open>sourceFile\<close> raises the missing-source-file error (the
  code tests the program first, so a context that lacks both gets the missing-program
  error).  In both cases nothing is resolved: the result does not depend on the resolver
  and the cache is left as it was.  The two errors differ.
\<close>

theorem fromModule_context_errors:
  "(program ctx = None \<longrightarrow>
      isAssignableTo ctx ty (t_fromModule r m e) c = (Inl missingProgramError, c)) \<and>
   (program ctx \<noteq> None \<longrightarrow> (m = ''./'' @ rest \<or> m = ''../'' @ rest) \<longrightarrow> sourceFile ctx = None \<longrightarrow>
      isAssignableTo ctx ty (t_fromModule r m e) c = (Inl missingSourceFileError, c)) \<and>
   missingProgramError \<noteq> missingSourceFileError"
  by (auto simp: isAssignableTo_def t_fromModule_def accepts_schema isRelative_def startsWith_def
        missingProgramError_def missingSourceFileError_def split: option.splits)

theorem fromModule_context_errors_witness:
  "program checkerOnlyCtx = None \<and>
   isAssignableTo checkerOnlyCtx 0 (t_fromModule demoResolve ''fake-lib'' ''Foo'') Map.empty
     = (Inl missingProgramError, Map.empty) \<and>
   program (demoCtx\<lparr>sourceFile := None\<rparr>) \<noteq> None \<and>
   isAssignableTo (demoCtx\<lparr>sourceFile := None\<rparr>) 0
       (t_fromModule demoResolve ''./file-lib'' ''Widget'') Map.empty
     = (Inl missingSourceFileError, Map.empty)"
  using fromModule_context_errors [where ctx = checkerOnlyCtx and ty = 0 and r = demoResolve
          and m = "''fake-lib''" and e = "''Foo''" and c = Map.empty]
        fromModule_context_errors [where ctx = "demoCtx\<lparr>sourceFile := None\<rparr>" and ty = 0
          and r = demoResolve and m = "''./file-lib''" and rest = "''file-lib''"
          and e = "''Widget''" and c = Map.empty]
  by (simp add: demo_defs)

text \<open>
  Claim C3.  When the first evaluation of a module reference finds nothing, the error is
  the same in the two cases: no module matched the specifier (ambient fallback included),
  or a module was found and the export is not among its exports.  Both raise
  \<open>unresolvedExportError\<close>, whose message is made of the export name and the specifier
  only; it differs from the two errors of the context.  A module reference raises no
  other error than these three, in any context and cache.
\<close>

theorem unresolved_export_error:
  assumes "program ctx = Some prog"
      and "isRelative m \<longrightarrow> sourceFile ctx \<noteq> None"
      and "cacheLookup c (checker ctx) (cacheKey m e (sourceFile ctx)) = None"
      and "resolveModuleSymbol r (checker ctx) prog m (sourceFile ctx) = None \<or>
           (\<exists>moduleSymbol. resolveModuleSymbol r (checker ctx) prog m (sourceFile ctx) = Some moduleSymbol \<and>
              find (\<lambda>s. getName s = e) (getExportsOfModule (checker ctx) moduleSymbol) = None)"
  shows "fst (isAssignableTo ctx ty (t_fromModule r m e) c) = Inl (unresolvedExportError e m) \<and>
         unresolvedExportError e m \<noteq> missingProgramError \<and>
         unresolvedExportError e m \<noteq> missingSourceFileError \<and>
         (\<forall>ctx' ty' r' d err. fst (isAssignableTo ctx' ty' (t_fromModule r' m e) d) = Inl err \<longrightarrow>
            err = missingProgramError \<or> err = missingSourceFileError \<or>
            err = unresolvedExportError e m)"
proof -
  from assms(4) have "resolveModuleType r (checker ctx) prog m e (sourceFile ctx) = None"
    by (simp only: resolveModuleType_None_iff)
  then have "fst (isAssignableTo ctx ty (t_fromModule r m e) c) = Inl (unresolvedExportError e m)"
    unfolding fromModule_miss [OF assms(1-3)] by simp
  with unresolved_distinct [of e m] fromModule_errors [of _ _ _ m e] show ?thesis
    by blast
qed

theorem unresolved_export_error_witness:
  "program demoCtx = Some demoProgram \<and>
   \<not> isRelative ''fake-lib'' \<and>
   cacheLookup Map.empty (checker demoCtx) (cacheKey ''fake-lib'' ''DoesNotExist'' (sourceFile demoCtx))
     = None \<and>
   fst (isAssignableTo demoCtx 0 (t_fromModule demoResolve ''fake-lib'' ''DoesNotExist'') Map.empty)
     = Inl (unresolvedExportError ''DoesNotExist'' ''fake-lib'') \<and>
   program bareCtx = Some demoProgram \<and>
   fst (isAssignableTo bareCtx 0 (t_fromModule bareResolve ''fake-lib'' ''DoesNotExist'') Map.empty)
     = Inl (unresolvedExportError ''DoesNotExist'' ''fake-lib'')"
proof -
  have p: "program demoCtx = Some demoProgram" "program bareCtx = Some demoProgram"
    by (simp_all add: demo_defs)
  have nrel: "\<not> isRelative ''fake-lib''" by (simp add: isRelative_def startsWith_def)
  then have rel: "isRelative ''fake-lib'' \<longrightarrow> sourceFile ctx \<noteq> None" for ctx by simp
  have miss: "cacheLookup Map.empty (checker ctx) (cacheKey ''fake-lib'' ''DoesNotExist'' (sourceFile ctx))
     = None" for ctx
    by (simp add: cacheLookup_def)
  have found: "\<exists>moduleSymbol.
      resolveModuleSymbol demoResolve (checker demoCtx) demoProgram ''fake-lib'' (sourceFile demoCtx)
        = Some moduleSymbol \<and>
      find (\<lambda>s. getName s = ''DoesNotExist'') (getExportsOfModule (checker demoCtx) moduleSymbol) = None"
    by (simp add: demo_defs resolveModuleSymbol_def)
  have nomod: "resolveModuleSymbol bareResolve (checker bareCtx) demoProgram ''fake-lib''
                 (sourceFile bareCtx) = None"
    by (simp add: demo_defs resolveModuleSymbol_def)
  from unresolved_export_error [OF p(1) rel miss disjI2, OF found, of 0]
       unresolved_export_error [OF p(2) rel miss disjI1, OF nomod, of 0]
       p nrel miss [of demoCtx]
  show ?thesis by simp
qed

text \<open>
  The two cases side by side, for \<^verbatim>\<open>t.fromModule("fake-lib", "DoesNotExist")\<close>: in the
  first world the package resolves and has no such export, in the second no module
  matches.  The errors are equal.
\<close>

theorem unresolved_export_error_counterexample:
  "resolveModuleSymbol demoResolve (checker demoCtx) demoProgram ''fake-lib'' (sourceFile demoCtx)
     = Some (sym (quote @ ''/proj/node_modules/fake-lib/index'' @ quote) 512) \<and>
   find (\<lambda>s. getName s = ''DoesNotExist'')
     (getExportsOfModule (checker demoCtx)
        (sym (quote @ ''/proj/node_modules/fake-lib/index'' @ quote) 512)) = None \<and>
   resolveModuleSymbol bareResolve (checker bareCtx) demoProgram ''fake-lib'' (sourceFile bareCtx)
     = None \<and>
   fst (isAssignableTo demoCtx 0 (t_fromModule demoResolve ''fake-lib'' ''DoesNotExist'') Map.empty)
     = Inl (unresolvedExportError ''DoesNotExist'' ''fake-lib'') \<and>
   fst (isAssignableTo bareCtx 0 (t_fromModule bareResolve ''fake-lib'' ''DoesNotExist'') Map.empty)
     = Inl (unresolvedExportError ''DoesNotExist'' ''fake-lib'')"
  by (simp add: eval_defs demo_defs module_defs)

text \<open>
  Claim C4.  The cache is write-once per key (checker, specifier, export name, and the
  name of the resolving file when the specifier is relative).  Two evaluations have the
  same key iff they agree on the specifier, on the export name and, for a relative
  specifier, on the file name.  No evaluation of a module reference changes an entry that
  exists, and an evaluation leaves alone every entry but the one of its own checker and
  key.  After an evaluation that passes the two context checks, the entry of its key
  holds an outcome \<open>v\<close>: the outcome of the resolution when the key was absent (first
  evaluation), the stored outcome otherwise, and then the cache is unchanged.  The result
  of the evaluation is read off \<open>v\<close>.  Every later evaluation for the same checker and
  key, in any cache \<open>d\<close> that holds \<open>v\<close> under the key, with any resolver, program and
  candidate, leaves \<open>d\<close> as it is and reads its result off \<open>v\<close>; when \<open>v\<close> is "not found"
  it raises the same \<open>unresolvedExportError\<close>.  An evaluation for another checker or
  another key, absent so far, resolves afresh right after the first one, stores its own
  outcome under its own key and leaves \<open>v\<close> where it is.
\<close>

theorem module_cache_write_once:
  assumes "program ctx = Some prog"
      and "isRelative m \<longrightarrow> sourceFile ctx \<noteq> None"
      and "program ctx' = Some prog'"
      and "isRelative m' \<longrightarrow> sourceFile ctx' \<noteq> None"
  shows "(cacheKey m' e' (sourceFile ctx') = cacheKey m e (sourceFile ctx) \<longleftrightarrow>
            m' = m \<and> e' = e \<and>
            (isRelative m \<longrightarrow>
               map_option fileName (sourceFile ctx') = map_option fileName (sourceFile ctx))) \<and>
         (\<forall>ctx0 ty0 r0 m0 e0 c0 chk0 k0 w. cacheLookup c0 chk0 k0 = Some w \<longrightarrow>
            cacheLookup (snd (isAssignableTo ctx0 ty0 (t_fromModule r0 m0 e0) c0)) chk0 k0 = Some w) \<and>
         (\<forall>chk0 k0.
            checkerId chk0 \<noteq> checkerId (checker ctx) \<or> k0 \<noteq> cacheKey m e (sourceFile ctx) \<longrightarrow>
            cacheLookup (snd (isAssignableTo ctx ty (t_fromModule r m e) c)) chk0 k0 =
            cacheLookup c chk0 k0) \<and>
         (\<exists>v. cacheLookup (snd (isAssignableTo ctx ty (t_fromModule r m e) c)) (checker ctx)
                 (cacheKey m e (sourceFile ctx)) = Some v \<and>
              (cacheLookup c (checker ctx) (cacheKey m e (sourceFile ctx)) = None \<longrightarrow>
                 v = resolveModuleType r (checker ctx) prog m e (sourceFile ctx)) \<and>
              (\<forall>v0. cacheLookup c (checker ctx) (cacheKey m e (sourceFile ctx)) = Some v0 \<longrightarrow>
                 v = v0 \<and> snd (isAssignableTo ctx ty (t_fromModule r m e) c) = c) \<and>
              fst (isAssignableTo ctx ty (t_fromModule r m e) c) =
                (case v of
                   Some targetType \<Rightarrow> Inr (isTypeAssignableTo (checker ctx) ty targetType)
                 | None \<Rightarrow> Inl (unresolvedExportError e m)) \<and>
              (checker ctx' = checker ctx \<longrightarrow>
               cacheKey m' e' (sourceFile ctx') = cacheKey m e (sourceFile ctx) \<longrightarrow>
                 (\<forall>d. cacheLookup d (checker ctx) (cacheKey m e (sourceFile ctx)) = Some v \<longrightarrow>
                    isAssignableTo ctx' ty' (t_fromModule r' m' e') d =
                      (case v of
                         Some targetType \<Rightarrow> Inr (isTypeAssignableTo (checker ctx) ty' targetType)
                       | None \<Rightarrow> Inl (unresolvedExportError e m), d))) \<and>
              (checkerId (checker ctx') \<noteq> checkerId (checker ctx) \<or>
               cacheKey m' e' (sourceFile ctx') \<noteq> cacheKey m e (sourceFile ctx) \<longrightarrow>
               cacheLookup c (checker ctx') (cacheKey m' e' (sourceFile ctx')) = None \<longrightarrow>
                 fst (isAssignableTo ctx' ty' (t_fromModule r' m' e')
                        (snd (isAssignableTo ctx ty (t_fromModule r m e) c))) =
                   (case resolveModuleType r' (checker ctx') prog' m' e' (sourceFile ctx') of
                      Some targetType \<Rightarrow> Inr (isTypeAssignableTo (checker ctx') ty' targetType)
                    | None \<Rightarrow> Inl (unresolvedExportError e' m')) \<and>
                 cacheLookup
                   (snd (isAssignableTo ctx' ty' (t_fromModule r' m' e')
                           (snd (isAssignableTo ctx ty (t_fromModule r m e) c))))
                   (checker ctx') (cacheKey m' e' (sourceFile ctx')) =
                   Some (resolveModuleType r' (checker ctx') prog' m' e' (sourceFile ctx')) \<and>
                 cacheLookup
                   (snd (isAssignableTo ctx' ty' (t_fromModule r' m' e')
                           (snd (isAssignableTo ctx ty (t_fromModule r m e) c))))
                   (checker ctx) (cacheKey m e (sourceFile ctx)) = Some v))"
proof -
  let ?k = "cacheKey m e (sourceFile ctx)"
  let ?k' = "cacheKey m' e' (sourceFile ctx')"
  let ?c1 = "snd (isAssignableTo ctx ty (t_fromModule r m e) c)"
  let ?c2 = "snd (isAssignableTo ctx' ty' (t_fromModule r' m' e') ?c1)"
  let ?v' = "resolveModuleType r' (checker ctx') prog' m' e' (sourceFile ctx')"
  have key: "?k' = ?k \<longleftrightarrow>
            m' = m \<and> e' = e \<and>
            (isRelative m \<longrightarrow>
               map_option fileName (sourceFile ctx') = map_option fileName (sourceFile ctx))"
    by (rule cacheKey_eq_iff)
  have once: "\<forall>ctx0 ty0 r0 m0 e0 c0 chk0 k0 w. cacheLookup c0 chk0 k0 = Some w \<longrightarrow>
            cacheLookup (snd (isAssignableTo ctx0 ty0 (t_fromModule r0 m0 e0) c0)) chk0 k0 = Some w"
    using fromModule_keeps_entries by blast
  have frame: "\<forall>chk0 k0. checkerId chk0 \<noteq> checkerId (checker ctx) \<or> k0 \<noteq> ?k \<longrightarrow>
            cacheLookup ?c1 chk0 k0 = cacheLookup c chk0 k0"
    using fromModule_frame by blast
  have later: "isAssignableTo ctx' ty' (t_fromModule r' m' e') d =
                   (case v of
                      Some targetType \<Rightarrow> Inr (isTypeAssignableTo (checker ctx) ty' targetType)
                    | None \<Rightarrow> Inl (unresolvedExportError e m), d)"
    if "checker ctx' = checker ctx" "?k' = ?k" "cacheLookup d (checker ctx) ?k = Some v" for d v
  proof -
    from that(2) key have me: "m' = m" "e' = e" by simp_all
    from that have "cacheLookup d (checker ctx') ?k' = Some v" by simp
    from fromModule_hit [OF assms(3,4) this, of ty' r'] show ?thesis
      unfolding that(1) me .
  qed
  have other: "fst (isAssignableTo ctx' ty' (t_fromModule r' m' e') ?c1) =
                   (case ?v' of
                      Some targetType \<Rightarrow> Inr (isTypeAssignableTo (checker ctx') ty' targetType)
                    | None \<Rightarrow> Inl (unresolvedExportError e' m')) \<and>
               cacheLookup ?c2 (checker ctx') ?k' = Some ?v' \<and>
               cacheLookup ?c2 (checker ctx) ?k = Some v"
    if diff: "checkerId (checker ctx') \<noteq> checkerId (checker ctx) \<or> ?k' \<noteq> ?k"
      and absent: "cacheLookup c (checker ctx') ?k' = None"
      and v: "cacheLookup ?c1 (checker ctx) ?k = Some v" for v
  proof -
    from fromModule_frame [OF diff] absent
    have miss: "cacheLookup ?c1 (checker ctx') ?k' = None" by simp
    have 1: "fst (isAssignableTo ctx' ty' (t_fromModule r' m' e') ?c1) =
                   (case ?v' of
                      Some targetType \<Rightarrow> Inr (isTypeAssignableTo (checker ctx') ty' targetType)
                    | None \<Rightarrow> Inl (unresolvedExportError e' m'))"
      unfolding fromModule_miss [OF assms(3,4) miss] by simp
    have 2: "cacheLookup ?c2 (checker ctx') ?k' = Some ?v'"
      unfolding fromModule_miss [OF assms(3,4) miss] by (simp add: cacheLookup_def)
    have 3: "cacheLookup ?c2 (checker ctx) ?k = Some v"
      using fromModule_keeps_entries [OF v] .
    from 1 2 3 show ?thesis by blast
  qed
  define v where "v = (case cacheLookup c (checker ctx) ?k of
                         None \<Rightarrow> resolveModuleType r (checker ctx) prog m e (sourceFile ctx)
                       | Some v0 \<Rightarrow> v0)"
  have v1: "cacheLookup ?c1 (checker ctx) ?k = Some v"
   and v4: "fst (isAssignableTo ctx ty (t_fromModule r m e) c) =
                (case v of
                   Some targetType \<Rightarrow> Inr (isTypeAssignableTo (checker ctx) ty targetType)
                 | None \<Rightarrow> Inl (unresolvedExportError e m))"
   and v3: "\<forall>v0. cacheLookup c (checker ctx) ?k = Some v0 \<longrightarrow> v = v0 \<and> ?c1 = c"
  proof -
    show "cacheLookup ?c1 (checker ctx) ?k = Some v"
    proof (cases "cacheLookup c (checker ctx) ?k")
      case None
      then show ?thesis
        unfolding fromModule_miss [OF assms(1,2) None] v_def by (simp add: cacheLookup_def)
    next
      case (Some v0)
      then show ?thesis
        unfolding fromModule_hit [OF assms(1,2) Some] v_def by simp
    qed
    show "fst (isAssignableTo ctx ty (t_fromModule r m e) c) =
                (case v of
                   Some targetType \<Rightarrow> Inr (isTypeAssignableTo (checker ctx) ty targetType)
                 | None \<Rightarrow> Inl (unresolvedExportError e m))"
    proof (cases "cacheLookup c (checker ctx) ?k")
      case None
      then show ?thesis
        unfolding fromModule_miss [OF assms(1,2) None] v_def by simp
    next
      case (Some v0)
      then show ?thesis
        unfolding fromModule_hit [OF assms(1,2) Some] v_def by simp
    qed
    show "\<forall>v0. cacheLookup c (checker ctx) ?k = Some v0 \<longrightarrow> v = v0 \<and> ?c1 = c"
    proof (intro allI impI)
      fix v0 assume hit: "cacheLookup c (checker ctx) ?k = Some v0"
      then show "v = v0 \<and> ?c1 = c"
        unfolding fromModule_hit [OF assms(1,2) hit] v_def by simp
    qed
  qed
  have v2: "cacheLookup c (checker ctx) ?k = None \<longrightarrow>
       v = resolveModuleType r (checker ctx) prog m e (sourceFile ctx)"
    by (simp add: v_def)
  have same: "checker ctx' = checker ctx \<longrightarrow> ?k' = ?k \<longrightarrow>
                 (\<forall>d. cacheLookup d (checker ctx) ?k = Some v \<longrightarrow>
                    isAssignableTo ctx' ty' (t_fromModule r' m' e') d =
                      (case v of
                         Some targetType \<Rightarrow> Inr (isTypeAssignableTo (checker ctx) ty' targetType)
                       | None \<Rightarrow> Inl (unresolvedExportError e m), d))"
    using later by blast
  have fresh: "checkerId (checker ctx') \<noteq> checkerId (checker ctx) \<or> ?k' \<noteq> ?k \<longrightarrow>
               cacheLookup c (checker ctx') ?k' = None \<longrightarrow>
                 fst (isAssignableTo ctx' ty' (t_fromModule r' m' e') ?c1) =
                   (case ?v' of
                      Some targetType \<Rightarrow> Inr (isTypeAssignableTo (checker ctx') ty' targetType)
                    | None \<Rightarrow> Inl (unresolvedExportError e' m')) \<and>
                 cacheLookup ?c2 (checker ctx') ?k' = Some ?v' \<and>
                 cacheLookup ?c2 (checker ctx) ?k = Some v"
    using other [OF _ _ v1] by blast
  from v1 v2 v3 v4 same fresh have "\<exists>v. cacheLookup ?c1 (checker ctx) ?k = Some v \<and>
              (cacheLookup c (checker ctx) ?k = None \<longrightarrow>
                 v = resolveModuleType r (checker ctx) prog m e (sourceFile ctx)) \<and>
              (\<forall>v0. cacheLookup c (checker ctx) ?k = Some v0 \<longrightarrow> v = v0 \<and> ?c1 = c) \<and>
              fst (isAssignableTo ctx ty (t_fromModule r m e) c) =
                (case v of
                   Some targetType \<Rightarrow> Inr (isTypeAssignableTo (checker ctx) ty targetType)
                 | None \<Rightarrow> Inl (unresolvedExportError e m)) \<and>
              (checker ctx' = checker ctx \<longrightarrow> ?k' = ?k \<longrightarrow>
                 (\<forall>d. cacheLookup d (checker ctx) ?k = Some v \<longrightarrow>
                    isAssignableTo ctx' ty' (t_fromModule r' m' e') d =
                      (case v of
                         Some targetType \<Rightarrow> Inr (isTypeAssignableTo (checker ctx) ty' targetType)
                       | None \<Rightarrow> Inl (unresolvedExportError e m), d))) \<and>
              (checkerId (checker ctx') \<noteq> checkerId (checker ctx) \<or> ?k' \<noteq> ?k \<longrightarrow>
               cacheLookup c (checker ctx') ?k' = None \<longrightarrow>
                 fst (isAssignableTo ctx' ty' (t_fromModule r' m' e') ?c1) =
                   (case ?v' of
                      Some targetType \<Rightarrow> Inr (isTypeAssignableTo (checker ctx') ty' targetType)
                    | None \<Rightarrow> Inl (unresolvedExportError e' m')) \<and>
                 cacheLookup ?c2 (checker ctx') ?k' = Some ?v' \<and>
                 cacheLookup ?c2 (checker ctx) ?k = Some v)"
    by (intro exI [of _ v] conjI)
  with key once frame show ?thesis by (intro conjI)
qed

text \<open>
  The relative specifier \<^verbatim>\<open>./lib\<close> from two files: the evaluation from \<^verbatim>\<open>/proj/test.ts\<close>
  stores the export; a second one from the same file finds it although its resolver
  resolves nothing; one from \<^verbatim>\<open>/other/main.ts\<close> has another key, resolves afresh, finds
  nothing and stores that beside the first entry.
\<close>

theorem module_cache_write_once_witness:
  "program demoCtx = Some demoProgram \<and> program otherFileCtx = Some demoProgram \<and>
   isRelative ''./lib'' \<and>
   sourceFile demoCtx = Some \<lparr>fileName = ''/proj/test.ts''\<rparr> \<and>
   sourceFile otherFileCtx = Some \<lparr>fileName = ''/other/main.ts''\<rparr> \<and>
   checker otherFileCtx = checker demoCtx \<and>
   cacheKey ''./lib'' ''Gadget'' (sourceFile otherFileCtx)
     \<noteq> cacheKey ''./lib'' ''Gadget'' (sourceFile demoCtx) \<and>
   resolveModuleType siteResolve (checker demoCtx) demoProgram ''./lib'' ''Gadget''
       (sourceFile demoCtx) = Some 30 \<and>
   resolveModuleType siteResolve (checker demoCtx) demoProgram ''./lib'' ''Gadget''
       (sourceFile otherFileCtx) = None \<and>
   resolveModuleType bareResolve (checker demoCtx) demoProgram ''./lib'' ''Gadget''
       (sourceFile demoCtx) = None \<and>
   cacheLookup (snd (isAssignableTo demoCtx 30 (t_fromModule siteResolve ''./lib'' ''Gadget'')
                       Map.empty))
       (checker demoCtx) (cacheKey ''./lib'' ''Gadget'' (sourceFile demoCtx))
     = Some (Some 30) \<and>
   isAssignableTo demoCtx 30 (t_fromModule bareResolve ''./lib'' ''Gadget'')
       (snd (isAssignableTo demoCtx 30 (t_fromModule siteResolve ''./lib'' ''Gadget'') Map.empty))
     = (Inr True,
        snd (isAssignableTo demoCtx 30 (t_fromModule siteResolve ''./lib'' ''Gadget'') Map.empty)) \<and>
   fst (isAssignableTo otherFileCtx 30 (t_fromModule siteResolve ''./lib'' ''Gadget'')
          (snd (isAssignableTo demoCtx 30 (t_fromModule siteResolve ''./lib'' ''Gadget'')
                  Map.empty)))
     = Inl (unresolvedExportError ''Gadget'' ''./lib'') \<and>
   cacheLookup
       (snd (isAssignableTo otherFileCtx 30 (t_fromModule siteResolve ''./lib'' ''Gadget'')
          (snd (isAssignableTo demoCtx 30 (t_fromModule siteResolve ''./lib'' ''Gadget'')
                  Map.empty))))
       (checker demoCtx) (cacheKey ''./lib'' ''Gadget'' (sourceFile otherFileCtx))
     = Some None \<and>
   cacheLookup
       (snd (isAssignableTo otherFileCtx 30 (t_fromModule siteResolve ''./lib'' ''Gadget'')
          (snd (isAssignableTo demoCtx 30 (t_fromModule siteResolve ''./lib'' ''Gadget'')
                  Map.empty))))
       (checker demoCtx) (cacheKey ''./lib'' ''Gadget'' (sourceFile demoCtx))
     = Some (Some 30)"
proof -
  let ?k = "cacheKey ''./lib'' ''Gadget'' (sourceFile demoCtx)"
  let ?k' = "cacheKey ''./lib'' ''Gadget'' (sourceFile otherFileCtx)"
  let ?s = "t_fromModule siteResolve ''./lib'' ''Gadget''"
  let ?c1 = "snd (isAssignableTo demoCtx 30 ?s Map.empty)"
  let ?c2 = "snd (isAssignableTo otherFileCtx 30 ?s ?c1)"
  have p: "program demoCtx = Some demoProgram" "program otherFileCtx = Some demoProgram"
    by (simp_all add: demo_defs site_defs)
  have sf: "sourceFile demoCtx = Some \<lparr>fileName = ''/proj/test.ts''\<rparr>"
    "sourceFile otherFileCtx = Some \<lparr>fileName = ''/other/main.ts''\<rparr>"
    by (simp_all add: demo_defs site_defs)
  have ch: "checker otherFileCtx = checker demoCtx" by (simp add: site_defs)
  have isrel: "isRelative ''./lib''" by (simp add: isRelative_def startsWith_def)
  have rel: "isRelative ''./lib'' \<longrightarrow> sourceFile demoCtx \<noteq> None"
    "isRelative ''./lib'' \<longrightarrow> sourceFile otherFileCtx \<noteq> None"
    using sf by simp_all
  have miss: "cacheLookup Map.empty chk k = None" for chk k by (simp add: cacheLookup_def)
  have res: "resolveModuleType siteResolve (checker demoCtx) demoProgram ''./lib'' ''Gadget''
       (sourceFile demoCtx) = Some 30"
    "resolveModuleType siteResolve (checker demoCtx) demoProgram ''./lib'' ''Gadget''
       (sourceFile otherFileCtx) = None"
    "resolveModuleType bareResolve (checker demoCtx) demoProgram ''./lib'' ''Gadget''
       (sourceFile demoCtx) = None"
    by (simp_all add: demo_defs site_defs resolveModuleType_def resolveModuleSymbol_def)
  have asg: "isTypeAssignableTo (checker demoCtx) 30 30" by (simp add: demo_defs)
  note same = module_cache_write_once [OF p(1) rel(1) p(1) rel(1), where c = Map.empty and ty = 30
      and r = siteResolve and e = "''Gadget''" and e' = "''Gadget''" and ty' = 30 and r' = bareResolve]
  note other = module_cache_write_once [OF p(1) rel(1) p(2) rel(2), where c = Map.empty and ty = 30
      and r = siteResolve and e = "''Gadget''" and e' = "''Gadget''" and ty' = 30 and r' = siteResolve]
  from other [THEN conjunct1] isrel sf have keys: "?k' \<noteq> ?k" by simp
  from same [THEN conjunct2, THEN conjunct2, THEN conjunct2]
  obtain v where v: "cacheLookup ?c1 (checker demoCtx) ?k = Some v"
    "cacheLookup Map.empty (checker demoCtx) ?k = None \<longrightarrow>
       v = resolveModuleType siteResolve (checker demoCtx) demoProgram ''./lib'' ''Gadget''
             (sourceFile demoCtx)"
    "checker demoCtx = checker demoCtx \<longrightarrow> ?k = ?k \<longrightarrow>
       (\<forall>d. cacheLookup d (checker demoCtx) ?k = Some v \<longrightarrow>
          isAssignableTo demoCtx 30 (t_fromModule bareResolve ''./lib'' ''Gadget'') d =
            (case v of
               Some targetType \<Rightarrow> Inr (isTypeAssignableTo (checker demoCtx) 30 targetType)
             | None \<Rightarrow> Inl (unresolvedExportError ''Gadget'' ''./lib''), d))"
    by (elim exE conjE)
  from v(2) miss res(1) have v30: "v = Some 30" by simp
  from v(3) v(1) v30 asg
  have reuse: "isAssignableTo demoCtx 30 (t_fromModule bareResolve ''./lib'' ''Gadget'') ?c1
      = (Inr True, ?c1)" by simp
  from other [THEN conjunct2, THEN conjunct2, THEN conjunct2]
  obtain w where w: "cacheLookup ?c1 (checker demoCtx) ?k = Some w"
    "checkerId (checker otherFileCtx) \<noteq> checkerId (checker demoCtx) \<or> ?k' \<noteq> ?k \<longrightarrow>
     cacheLookup Map.empty (checker otherFileCtx) ?k' = None \<longrightarrow>
       fst (isAssignableTo otherFileCtx 30 ?s ?c1) =
         (case resolveModuleType siteResolve (checker otherFileCtx) demoProgram ''./lib''
                 ''Gadget'' (sourceFile otherFileCtx) of
            Some targetType \<Rightarrow> Inr (isTypeAssignableTo (checker otherFileCtx) 30 targetType)
          | None \<Rightarrow> Inl (unresolvedExportError ''Gadget'' ''./lib'')) \<and>
       cacheLookup ?c2 (checker otherFileCtx) ?k' =
         Some (resolveModuleType siteResolve (checker otherFileCtx) demoProgram ''./lib''
                 ''Gadget'' (sourceFile otherFileCtx)) \<and>
       cacheLookup ?c2 (checker demoCtx) ?k = Some w"
    by (elim exE conjE)
  from w(1) v(1) v30 have w30: "w = Some 30" by simp
  from w(2) keys miss have fresh:
    "fst (isAssignableTo otherFileCtx 30 ?s ?c1) =
         (case resolveModuleType siteResolve (checker otherFileCtx) demoProgram ''./lib''
                 ''Gadget'' (sourceFile otherFileCtx) of
            Some targetType \<Rightarrow> Inr (isTypeAssignableTo (checker otherFileCtx) 30 targetType)
          | None \<Rightarrow> Inl (unresolvedExportError ''Gadget'' ''./lib''))"
    "cacheLookup ?c2 (checker otherFileCtx) ?k' =
         Some (resolveModuleType siteResolve (checker otherFileCtx) demoProgram ''./lib''
                 ''Gadget'' (sourceFile otherFileCtx))"
    "cacheLookup ?c2 (checker demoCtx) ?k = Some w"
    by simp_all
  from fresh res(2) w30 have f:
    "fst (isAssignableTo otherFileCtx 30 ?s ?c1) = Inl (unresolvedExportError ''Gadget'' ''./lib'')"
    "cacheLookup ?c2 (checker demoCtx) ?k' = Some None"
    "cacheLookup ?c2 (checker demoCtx) ?k = Some (Some 30)"
    unfolding ch by simp_all
  from v(1) v30 have stored: "cacheLookup ?c1 (checker demoCtx) ?k = Some (Some 30)" by simp
  show ?thesis
    by (intro conjI p isrel sf ch keys res stored reuse f)
qed

end
